theory Spec2Isabelle
  imports Main "HOL-Library.Word" "HOL-Library.Multiset"
begin

section \<open>JavaScript strings\<close>

text \<open>
  A JavaScript string is a sequence of UTF-16 code units. ASCII literals of the source are
  written with \<open>js\<close>; the emoji literals are written as their code units.
\<close>

type_synonym jsstring = "16 word list"

definition js :: "string \<Rightarrow> jsstring" where
  "js s = map (\<lambda>c. of_nat (of_char c)) s"

text \<open>
  \<open>String.prototype.trim\<close> removes leading and trailing white space and line terminators
  (ECMAScript: TAB, LF, VT, FF, CR, SP, NBSP, U+1680, U+2000 to U+200A, U+2028, U+2029,
  U+202F, U+205F, U+3000, U+FEFF).
\<close>

definition isWhiteSpace :: "16 word \<Rightarrow> bool" where
  "isWhiteSpace c =
     (c \<in> set [0x9, 0xA, 0xB, 0xC, 0xD, 0x20, 0xA0, 0x1680, 0x2028, 0x2029, 0x202F, 0x205F,
                0x3000, 0xFEFF]
      \<or> (0x2000 \<le> c \<and> c \<le> 0x200A))"

definition trim :: "jsstring \<Rightarrow> jsstring" where
  "trim s = rev (dropWhile isWhiteSpace (rev (dropWhile isWhiteSpace s)))"

text \<open>A string is blank when it is empty or holds white space only.\<close>

definition blank :: "jsstring \<Rightarrow> bool" where
  "blank s = list_all isWhiteSpace s"

text \<open>\<open>String(n)\<close> for a non-negative integer \<open>n\<close>: its decimal digits.\<close>

definition digit :: "nat \<Rightarrow> 16 word" where
  "digit d = of_nat (48 + d)"

function String_number :: "nat \<Rightarrow> jsstring" where
  "String_number n =
     (if n < 10 then [digit n] else String_number (n div 10) @ [digit (n mod 10)])"
  by pat_completeness auto
termination
  by (relation "measure (\<lambda>n. n)") auto

declare String_number.simps [simp del]

section \<open>Data model\<close>

text \<open>
  \<^verbatim>\<open>interface Message { text: string; isUser: boolean; timestamp: Date; }\<close>
  The timestamp is the number of milliseconds of the \<open>Date\<close>.
\<close>

record Message =
  msg_text :: jsstring
  isUser :: bool
  timestamp :: int

text \<open>\<^verbatim>\<open>interface ActionButton { id: string; name: string; action: string; emoji: string; }\<close>\<close>

record ActionButton =
  button_id :: jsstring
  name :: jsstring
  action :: jsstring
  emoji :: jsstring

text \<open>
  \<open>Partial<ActionButton>\<close>: every field may be absent (\<open>None\<close>).
\<close>

record Partial_ActionButton =
  upd_id :: "jsstring option"
  upd_name :: "jsstring option"
  upd_action :: "jsstring option"
  upd_emoji :: "jsstring option"

text \<open>
  \<^verbatim>\<open>interface LLMConfig { type: 'openai' | 'llama' | null; apiKey?: string; host?: string; port?: string; }\<close>
\<close>

datatype llm_type = OpenAI | Llama

record LLMConfig =
  type :: "llm_type option"
  apiKey :: "jsstring option"
  host :: "jsstring option"
  port :: "jsstring option"

definition defaultActions :: "ActionButton list" where
  "defaultActions =
     [\<lparr>button_id = js ''1'', name = js ''Expand'',
       action = js ''Expand the text while maintaining the context'', emoji = [0x2728]\<rparr>,
      \<lparr>button_id = js ''2'', name = js ''Shorten'',
       action = js ''Make the text more concise'', emoji = [0x2702, 0xFE0F]\<rparr>,
      \<lparr>button_id = js ''3'', name = js ''Critique'',
       action = js ''Provide feedback on the writing'', emoji = [0xD83C, 0xDFAF]\<rparr>]"

datatype Tab = Write_tab | Configure_tab

text \<open>
  The state of the \<open>Home\<close> component: one field for each \<open>useState\<close>. A handler runs on
  the state committed by the handlers before it and returns the state after its setters.
\<close>

record Home =
  activeTab :: Tab
  isCollapsed :: bool
  actions :: "ActionButton list"
  llmConfig :: LLMConfig
  isConnecting :: bool
  aboutMe :: jsstring
  preferredStyle :: jsstring
  tone :: jsstring
  editorContent :: jsstring
  isProcessing :: bool
  messages :: "Message list"
  inputMessage :: jsstring
  isChatProcessing :: bool

section \<open>Action button handlers\<close>

definition handleAddAction :: "Home \<Rightarrow> Home" where
  "handleAddAction s =
     (let newId = String_number (length (actions s) + 1)
      in s\<lparr>actions := actions s @
           [\<lparr>button_id = newId, name = js ''New Action'',
             action = js ''Describe what this action should do...'',
             emoji = [0xD83D, 0xDD39]\<rparr>]\<rparr>)"

text \<open>The object spread \<^verbatim>\<open>{ ...a, ...updates }\<close>: a field of \<open>updates\<close> wins where present.\<close>

definition spread :: "ActionButton \<Rightarrow> Partial_ActionButton \<Rightarrow> ActionButton" where
  "spread a updates =
     \<lparr>button_id = (case upd_id updates of None \<Rightarrow> button_id a | Some v \<Rightarrow> v),
      name = (case upd_name updates of None \<Rightarrow> name a | Some v \<Rightarrow> v),
      action = (case upd_action updates of None \<Rightarrow> action a | Some v \<Rightarrow> v),
      emoji = (case upd_emoji updates of None \<Rightarrow> emoji a | Some v \<Rightarrow> v)\<rparr>"

definition handleUpdateAction :: "jsstring \<Rightarrow> Partial_ActionButton \<Rightarrow> Home \<Rightarrow> Home" where
  "handleUpdateAction i updates s =
     s\<lparr>actions := map (\<lambda>a. if button_id a = i then spread a updates else a) (actions s)\<rparr>"

definition handleDeleteAction :: "jsstring \<Rightarrow> Home \<Rightarrow> Home" where
  "handleDeleteAction i s = s\<lparr>actions := filter (\<lambda>a. button_id a \<noteq> i) (actions s)\<rparr>"

subsection \<open>Reordering\<close>

text \<open>\<open>Array.prototype.findIndex\<close>: the first index whose element satisfies \<open>p\<close>, or \<open>-1\<close>.\<close>

fun findIndex :: "('a \<Rightarrow> bool) \<Rightarrow> 'a list \<Rightarrow> int" where
  "findIndex p [] = - 1"
| "findIndex p (x # xs) =
     (if p x then 0 else (let r = findIndex p xs in if r < 0 then - 1 else r + 1))"

text \<open>
  The start index of \<open>Array.prototype.splice\<close>: a negative index counts from the end, and
  the result is clamped to \<open>0..len\<close>.
\<close>

definition splice_start :: "int \<Rightarrow> nat \<Rightarrow> nat" where
  "splice_start start len =
     (if start < 0 then nat (max (int len + start) 0) else min (nat start) len)"

text \<open>
  Modelled from the spec: \<open>arrayMove\<close> is imported from the drag-and-drop library
  (\<^verbatim>\<open>@dnd-kit/sortable\<close>) and is not part of the sources. The spec calls the reordering
  a position swap within the ordered sequence that preserves the set of items and only
  changes their order. The model follows the library's function, which moves one element
  (it removes it and inserts it again):
  \<^verbatim>\<open>newArray = array.slice();
  newArray.splice(to < 0 ? newArray.length + to : to, 0, newArray.splice(from, 1)[0]);\<close>
  The target index is computed first, then the element at \<open>from\<close> is removed, then it is
  inserted at the target. On an empty array nothing is removed and \<open>undefined\<close> would be
  inserted; the result is then not a list of action buttons, which is the value \<open>None\<close>.
\<close>

definition arrayMove :: "'a list \<Rightarrow> int \<Rightarrow> int \<Rightarrow> 'a list option" where
  "arrayMove array from_i to_i =
     (let target = (if to_i < 0 then int (length array) + to_i else to_i);
          k = splice_start from_i (length array);
          removed = take 1 (drop k array);
          rest = take k array @ drop (k + 1) array
      in case removed of
           [] \<Rightarrow> None
         | x # _ \<Rightarrow>
             (let j = splice_start target (length rest)
              in Some (take j rest @ [x] @ drop j rest)))"

text \<open>
  A drag-end event: the id of the dragged item (\<open>active.id\<close>) and the id of the item it
  was dropped on (\<open>over?.id\<close>, \<open>None\<close> when \<open>over\<close> is null). \<open>String(undefined)\<close> is
  the string \<open>undefined\<close>.
\<close>

record DragEndEvent =
  active_id :: jsstring
  over_id :: "jsstring option"

definition String_over :: "jsstring option \<Rightarrow> jsstring" where
  "String_over v = (case v of None \<Rightarrow> js ''undefined'' | Some i \<Rightarrow> i)"

definition handleDragEnd :: "DragEndEvent \<Rightarrow> Home \<Rightarrow> Home option" where
  "handleDragEnd event s =
     (if Some (active_id event) \<noteq> over_id event then
        (let items = actions s;
             oldIndex = findIndex (\<lambda>item. button_id item = active_id event) items;
             newIndex = findIndex (\<lambda>item. button_id item = String_over (over_id event)) items
         in map_option (\<lambda>moved. s\<lparr>actions := moved\<rparr>) (arrayMove items oldIndex newIndex))
      else Some s)"

section \<open>Requests, responses and effects\<close>

text \<open>
  The body of a request, as \<open>JSON.stringify\<close> writes it (a field whose value is
  \<open>undefined\<close> is left out: \<open>None\<close>):
  \<^item> \<open>Post_chat message context\<close>, to \<^verbatim>\<open>/api/chat\<close>;
  \<^item> \<open>Post_submit_action action action_description text about_me preferred_style tone\<close>,
    to \<^verbatim>\<open>/api/submit_action\<close>;
  \<^item> \<open>Post_connect_llm type api_key host port\<close>, to \<^verbatim>\<open>/api/connect_llm\<close>.
\<close>

datatype request =
    Post_chat jsstring "jsstring option"
  | Post_submit_action jsstring jsstring jsstring jsstring jsstring jsstring
  | Post_connect_llm "llm_type option" "jsstring option" "jsstring option" "jsstring option"

text \<open>
  A thrown value: an \<open>Error\<close> with its message, or a value that is not an \<open>Error\<close>.
\<close>

datatype thrown = Error_obj jsstring | Non_error

text \<open>
  What a handler does besides setting state, in the order it does it: \<open>fetch\<close>,
  \<open>alert\<close>, \<open>console.error\<close> (its label and the value caught).
\<close>

datatype effect = is_Fetch: Fetch request | is_Alert: Alert jsstring | Console_error jsstring thrown

text \<open>
  How an awaited \<open>fetch\<close> settles: it rejects with a thrown value, or it resolves with
  \<open>response.ok\<close> and what \<open>response.json()\<close> gives: a thrown value (\<open>Inl\<close>) or the
  parsed body (\<open>Inr\<close>). The bodies are typed as the handlers read them:
  \<^item> chat: \<open>data.text\<close>;
  \<^item> submit action: \<open>data.text\<close>, and \<open>data.detail\<close> (\<open>None\<close> when it is absent);
  \<^item> connect: whether \<open>data.success\<close> is truthy, and \<open>data.message\<close> (\<open>None\<close> when it
    is absent).
\<close>

datatype 'b fetch_result = Rejected thrown | Responded bool "thrown + 'b"

record action_data =
  data_text :: jsstring
  data_detail :: "jsstring option"

record connect_data =
  success :: bool
  data_message :: "jsstring option"

text \<open>\<^verbatim>\<open>v || d\<close> for an optional string: \<open>undefined\<close> and the empty string are falsy.\<close>

definition or_default :: "jsstring option \<Rightarrow> jsstring \<Rightarrow> jsstring" where
  "or_default v d = (case v of None \<Rightarrow> d | Some m \<Rightarrow> if m = [] then d else m)"

section \<open>Chat\<close>

text \<open>
  An \<open>async\<close> handler is two functions: the part that runs up to the awaited \<open>fetch\<close>,
  and the part that runs when the \<open>fetch\<close> has settled (\<open>_settled\<close>), on the state of that
  moment. \<open>now\<close> is the value of \<open>new Date()\<close>.
\<close>

definition handleSendMessage :: "int \<Rightarrow> Home \<Rightarrow> Home \<times> effect list" where
  "handleSendMessage now s =
     (if trim (inputMessage s) = [] \<or> type (llmConfig s) = None \<or> isChatProcessing s
      then (s, [])
      else
        (let userMessage = \<lparr>msg_text = inputMessage s, isUser = True, timestamp = now\<rparr>
         in (s\<lparr>messages := messages s @ [userMessage],
               inputMessage := [],
               isChatProcessing := True\<rparr>,
             [Fetch (Post_chat (inputMessage s)
                (if editorContent s \<noteq> []
                 then Some (js ''Current editor content: '' @ editorContent s)
                 else None))])))"

definition apology :: jsstring where
  "apology = js (''I'' @ [CHR 0x27] @ ''m sorry, I encountered an error. Please try again.'')"

definition handleSendMessage_settled ::
  "int \<Rightarrow> jsstring fetch_result \<Rightarrow> Home \<Rightarrow> Home \<times> effect list" where
  "handleSendMessage_settled now r s =
     (let outcome =
        (case r of
           Rejected e \<Rightarrow> Inl e
         | Responded ok body \<Rightarrow>
             if \<not> ok then Inl (Error_obj (js ''Failed to send message'')) else body)
      in case outcome of
           Inr reply \<Rightarrow>
             (s\<lparr>messages := messages s @
                  [\<lparr>msg_text = reply, isUser = False, timestamp = now\<rparr>],
                isChatProcessing := False\<rparr>,
              [])
         | Inl error \<Rightarrow>
             (s\<lparr>messages := messages s @
                  [\<lparr>msg_text = apology, isUser = False, timestamp = now\<rparr>],
                isChatProcessing := False\<rparr>,
              [Console_error (js ''Chat error:'') error]))"

section \<open>Actions on the editor content\<close>

text \<open>
  \<open>toLowerCase\<close> is \<open>String.prototype.toLowerCase\<close> of the runtime, taken as a parameter.
\<close>

definition handleActionClick ::
  "(jsstring \<Rightarrow> jsstring) \<Rightarrow> ActionButton \<Rightarrow> Home \<Rightarrow> Home \<times> effect list" where
  "handleActionClick toLowerCase a s =
     (if type (llmConfig s) = None then
        (s, [Alert (js ''Please connect to an LLM first'')])
      else if trim (editorContent s) = [] then
        (s, [Alert (js ''Please enter some text in the editor first'')])
      else
        (s\<lparr>isProcessing := True\<rparr>,
         [Fetch (Post_submit_action (toLowerCase (name a)) (action a) (editorContent s)
            (aboutMe s) (preferredStyle s) (tone s))]))"

definition handleActionClick_settled ::
  "action_data fetch_result \<Rightarrow> Home \<Rightarrow> Home \<times> effect list" where
  "handleActionClick_settled r s =
     (let outcome =
        (case r of
           Rejected e \<Rightarrow> Inl e
         | Responded ok body \<Rightarrow>
             (case body of
                Inl e \<Rightarrow> Inl e
              | Inr data \<Rightarrow>
                  if \<not> ok
                  then Inl (Error_obj (or_default (data_detail data) (js ''Failed to process action'')))
                  else Inr data))
      in case outcome of
           Inr data \<Rightarrow> (s\<lparr>editorContent := data_text data, isProcessing := False\<rparr>, [])
         | Inl error \<Rightarrow>
             (s\<lparr>isProcessing := False\<rparr>,
              [Console_error (js ''Action processing failed:'') error,
               Alert (case error of
                        Error_obj m \<Rightarrow> m
                      | Non_error \<Rightarrow> js ''Failed to process action. Please try again.'')]))"

section \<open>Connecting to an LLM\<close>

definition unconnected :: LLMConfig where
  "unconnected = \<lparr>type = None, apiKey = None, host = None, port = None\<rparr>"

definition handleLLMConnect :: "LLMConfig \<Rightarrow> Home \<Rightarrow> Home \<times> effect list" where
  "handleLLMConnect config s =
     (s\<lparr>isConnecting := True\<rparr>,
      [Fetch
         (if type config = Some OpenAI
          then Post_connect_llm (type config) (apiKey config) None None
          else Post_connect_llm (type config) None (host config) (port config))])"

definition handleLLMConnect_settled ::
  "LLMConfig \<Rightarrow> connect_data fetch_result \<Rightarrow> Home \<Rightarrow> Home \<times> effect list" where
  "handleLLMConnect_settled config r s =
     (let outcome =
        (case r of
           Rejected e \<Rightarrow> Inl e
         | Responded ok body \<Rightarrow>
             (case body of
                Inl e \<Rightarrow> Inl e
              | Inr data \<Rightarrow>
                  if success data then Inr config
                  else Inl (Error_obj (or_default (data_message data) (js ''Failed to connect to LLM'')))))
      in case outcome of
           Inr c \<Rightarrow> (s\<lparr>llmConfig := c, isConnecting := False\<rparr>, [])
         | Inl error \<Rightarrow>
             (s\<lparr>llmConfig := unconnected, isConnecting := False\<rparr>,
              [Console_error (js ''Failed to connect:'') error,
               Alert (case error of
                        Error_obj m \<Rightarrow> m
                      | Non_error \<Rightarrow> js ''Failed to connect to LLM'')]))"

text \<open>
  The state of the connection dialog (\<open>LLMConnectionModal\<close>): the selected provider, the
  three input fields and the inline error.
\<close>

record LLMConnectionModal =
  selectedLLM :: llm_type
  form_apiKey :: jsstring
  form_host :: jsstring
  form_port :: jsstring
  form_error :: "jsstring option"

definition handleConnect ::
  "LLMConnectionModal \<Rightarrow> Home \<Rightarrow> LLMConnectionModal \<times> Home \<times> effect list" where
  "handleConnect m s =
     (let m0 = m\<lparr>form_error := None\<rparr>
      in if selectedLLM m = OpenAI \<and> trim (form_apiKey m) = [] then
           (m0\<lparr>form_error := Some (js ''API key is required'')\<rparr>, s, [])
         else if selectedLLM m = Llama \<and> (trim (form_host m) = [] \<or> trim (form_port m) = []) then
           (m0\<lparr>form_error := Some (js ''Host and port are required'')\<rparr>, s, [])
         else
           (let config =
              (if selectedLLM m = OpenAI
               then \<lparr>type = Some (selectedLLM m), apiKey = Some (form_apiKey m),
                      host = None, port = None\<rparr>
               else \<lparr>type = Some (selectedLLM m), apiKey = None,
                      host = Some (form_host m), port = Some (form_port m)\<rparr>);
                (s', effects) = handleLLMConnect config s
            in (m0, s', effects)))"

section \<open>The component as a transition system\<close>

text \<open>
  The initial state: the initial values of the \<open>useState\<close> calls. \<open>now\<close> is the time of
  the first render.
\<close>

definition initial :: "int \<Rightarrow> Home" where
  "initial now =
     \<lparr>activeTab = Write_tab, isCollapsed = False, actions = defaultActions,
      llmConfig = unconnected, isConnecting = False, aboutMe = [],
      preferredStyle = js ''Professional'', tone = js ''Formal'', editorContent = [],
      isProcessing = False,
      messages =
        [\<lparr>msg_text = js (''Hello! I'' @ [CHR 0x27] @ ''m Co Writer. How can I help you today?''),
          isUser = False, timestamp = now\<rparr>],
      inputMessage = [], isChatProcessing = False\<rparr>"

text \<open>An example: the state after a first connection to OpenAI has succeeded.\<close>

definition openai_config :: LLMConfig where
  "openai_config = \<lparr>type = Some OpenAI, apiKey = Some (js ''sk-test''), host = None, port = None\<rparr>"

definition connected :: Home where
  "connected = (initial 0)\<lparr>llmConfig := openai_config\<rparr>"

text \<open>
  A request that has been issued and has not settled yet, with what its continuation
  holds: the chat and action continuations hold nothing, the connect continuation holds
  the submitted configuration.
\<close>

datatype pending = Chat_pending | Action_pending | Connect_pending LLMConfig

record World =
  ui :: Home
  inflight :: "pending list"

text \<open>
  The events: the handlers of the component, the inline setters of its inputs, and the
  settling of a request in flight (the index says which one).
\<close>

datatype event =
    Add_action
  | Update_action jsstring Partial_ActionButton
  | Delete_action jsstring
  | Drag_end DragEndEvent
  | Set_active_tab Tab
  | Toggle_collapsed
  | Set_about_me jsstring
  | Set_preferred_style jsstring
  | Set_tone jsstring
  | Set_editor_content jsstring
  | Set_input_message jsstring
  | Send_message int
  | Chat_settled nat int "jsstring fetch_result"
  | Action_click ActionButton
  | Action_settled nat "action_data fetch_result"
  | Connect LLMConnectionModal
  | Connect_settled nat "connect_data fetch_result"

definition issued :: "pending \<Rightarrow> effect list \<Rightarrow> pending list" where
  "issued p effects = map (\<lambda>_. p) (filter is_Fetch effects)"

definition remove_at :: "nat \<Rightarrow> 'a list \<Rightarrow> 'a list" where
  "remove_at k xs = take k xs @ drop (Suc k) xs"

definition pending_at :: "nat \<Rightarrow> pending list \<Rightarrow> pending option" where
  "pending_at k ps = (if k < length ps then Some (ps ! k) else None)"

fun step :: "(jsstring \<Rightarrow> jsstring) \<Rightarrow> event \<Rightarrow> World \<Rightarrow> World option" where
  "step lc Add_action w = Some (w\<lparr>ui := handleAddAction (ui w)\<rparr>)"
| "step lc (Update_action i u) w = Some (w\<lparr>ui := handleUpdateAction i u (ui w)\<rparr>)"
| "step lc (Delete_action i) w = Some (w\<lparr>ui := handleDeleteAction i (ui w)\<rparr>)"
| "step lc (Drag_end e) w = map_option (\<lambda>s. w\<lparr>ui := s\<rparr>) (handleDragEnd e (ui w))"
| "step lc (Set_active_tab t) w = Some (w\<lparr>ui := (ui w)\<lparr>activeTab := t\<rparr>\<rparr>)"
| "step lc Toggle_collapsed w = Some (w\<lparr>ui := (ui w)\<lparr>isCollapsed := \<not> isCollapsed (ui w)\<rparr>\<rparr>)"
| "step lc (Set_about_me v) w = Some (w\<lparr>ui := (ui w)\<lparr>aboutMe := v\<rparr>\<rparr>)"
| "step lc (Set_preferred_style v) w = Some (w\<lparr>ui := (ui w)\<lparr>preferredStyle := v\<rparr>\<rparr>)"
| "step lc (Set_tone v) w = Some (w\<lparr>ui := (ui w)\<lparr>tone := v\<rparr>\<rparr>)"
| "step lc (Set_editor_content v) w = Some (w\<lparr>ui := (ui w)\<lparr>editorContent := v\<rparr>\<rparr>)"
| "step lc (Set_input_message v) w = Some (w\<lparr>ui := (ui w)\<lparr>inputMessage := v\<rparr>\<rparr>)"
| "step lc (Send_message now) w =
     (let (s, effects) = handleSendMessage now (ui w)
      in Some \<lparr>ui = s, inflight = inflight w @ issued Chat_pending effects\<rparr>)"
| "step lc (Chat_settled k now r) w =
     (if pending_at k (inflight w) = Some Chat_pending
      then Some \<lparr>ui = fst (handleSendMessage_settled now r (ui w)),
                 inflight = remove_at k (inflight w)\<rparr>
      else None)"
| "step lc (Action_click a) w =
     (let (s, effects) = handleActionClick lc a (ui w)
      in Some \<lparr>ui = s, inflight = inflight w @ issued Action_pending effects\<rparr>)"
| "step lc (Action_settled k r) w =
     (if pending_at k (inflight w) = Some Action_pending
      then Some \<lparr>ui = fst (handleActionClick_settled r (ui w)),
                 inflight = remove_at k (inflight w)\<rparr>
      else None)"
| "step lc (Connect m) w =
     (let (m', s, effects) = handleConnect m (ui w)
      in Some \<lparr>ui = s,
               inflight = inflight w @
                 issued (Connect_pending
                   (if selectedLLM m = OpenAI
                    then \<lparr>type = Some OpenAI, apiKey = Some (form_apiKey m), host = None, port = None\<rparr>
                    else \<lparr>type = Some Llama, apiKey = None, host = Some (form_host m),
                           port = Some (form_port m)\<rparr>)) effects\<rparr>)"
| "step lc (Connect_settled k r) w =
     (case pending_at k (inflight w) of
        Some (Connect_pending config) \<Rightarrow>
          Some \<lparr>ui = fst (handleLLMConnect_settled config r (ui w)),
                inflight = remove_at k (inflight w)\<rparr>
      | _ \<Rightarrow> None)"

fun run :: "(jsstring \<Rightarrow> jsstring) \<Rightarrow> event list \<Rightarrow> World \<Rightarrow> World option" where
  "run lc [] w = Some w"
| "run lc (e # es) w = (case step lc e w of None \<Rightarrow> None | Some w' \<Rightarrow> run lc es w')"

definition initial_world :: "int \<Rightarrow> World" where
  "initial_world now = \<lparr>ui = initial now, inflight = []\<rparr>"

definition chat_inflight :: "World \<Rightarrow> nat" where
  "chat_inflight w = length (filter (\<lambda>p. p = Chat_pending) (inflight w))"

text \<open>
  The invariant of the chat control: a chat request is in flight exactly when the
  processing flag is set, and then it is the only one.
\<close>

definition serialized :: "World \<Rightarrow> bool" where
  "serialized w = (chat_inflight w = (if isChatProcessing (ui w) then 1 else 0))"

section \<open>Properties of strings\<close>

lemma dropWhile_all_Nil:
  assumes "\<forall>x\<in>set (dropWhile P s). P x"
  shows "dropWhile P s = []"
proof (rule ccontr)
  assume ne: "dropWhile P s \<noteq> []"
  then have "\<not> P (hd (dropWhile P s))" by (rule hd_dropWhile)
  moreover have "hd (dropWhile P s) \<in> set (dropWhile P s)"
    using ne by simp
  ultimately show False using assms by blast
qed

text \<open>\<open>!s.trim()\<close> holds exactly for the blank strings.\<close>

lemma trim_empty_iff: "trim s = [] \<longleftrightarrow> blank s"
proof -
  let ?D = "dropWhile isWhiteSpace s"
  have "trim s = [] \<longleftrightarrow> dropWhile isWhiteSpace (rev ?D) = []"
    unfolding trim_def by (simp only: rev_is_Nil_conv)
  also have "\<dots> \<longleftrightarrow> (\<forall>x\<in>set ?D. isWhiteSpace x)"
    by (simp only: dropWhile_eq_Nil_conv set_rev)
  also have "\<dots> \<longleftrightarrow> ?D = []"
  proof
    assume "\<forall>x\<in>set ?D. isWhiteSpace x"
    then show "?D = []" by (rule dropWhile_all_Nil)
  next
    assume e: "?D = []"
    show "\<forall>x\<in>set ?D. isWhiteSpace x" unfolding e by simp
  qed
  also have "\<dots> \<longleftrightarrow> blank s"
    by (simp only: dropWhile_eq_Nil_conv blank_def list_all_iff)
  finally show ?thesis .
qed

section \<open>Adding and deleting action buttons\<close>

lemma handleAddAction_appends:
  "actions (handleAddAction s) =
     actions s @
       [\<lparr>button_id = String_number (length (actions s) + 1), name = js ''New Action'',
         action = js ''Describe what this action should do...'', emoji = [0xD83D, 0xDD39]\<rparr>]"
  by (simp add: handleAddAction_def)

text \<open>
  While the ids of the list are distinct, deleting the id of an item of the list removes
  that item and nothing else, and the other items keep their order.
\<close>

lemma filter_distinct_remove1:
  "distinct (map f xs) \<Longrightarrow> a \<in> set xs \<Longrightarrow> filter (\<lambda>x. f x \<noteq> f a) xs = remove1 a xs"
proof (induction xs)
  case Nil
  then show ?case by simp
next
  case (Cons x xs)
  show ?case
  proof (cases "x = a")
    case True
    from Cons.prems(1) have "f x \<notin> f ` set xs" by simp
    then have "\<forall>y\<in>set xs. f y \<noteq> f x" by (metis imageI)
    then have "filter (\<lambda>y. f y \<noteq> f x) xs = xs" by (simp add: filter_id_conv)
    with True show ?thesis by simp
  next
    case False
    with Cons.prems have "a \<in> set xs" and "f x \<noteq> f a" and "distinct (map f xs)" by auto
    with Cons.IH False show ?thesis by simp
  qed
qed

lemma handleDeleteAction_distinct:
  "distinct (map button_id (actions s)) \<Longrightarrow> a \<in> set (actions s) \<Longrightarrow>
   actions (handleDeleteAction (button_id a) s) = remove1 a (actions s)"
  by (simp add: handleDeleteAction_def filter_distinct_remove1)

text \<open>
  Claim C1. Adding an action gives the new action an id that no action of the list has,
  and deleting an id of the list removes exactly one action. The code takes the new id
  from the length of the list, so after a deletion the id can be taken already: from the
  three default actions, deleting the action with id 1 leaves the ids 2 and 3, and adding
  an action then gives a second action with id 3. Deleting id 3 then removes both.
\<close>

theorem handleAddAction_duplicate_id:
  "(let s1 = handleDeleteAction (js ''1'') (initial 0);
        s2 = handleAddAction s1;
        s3 = handleDeleteAction (js ''3'') s2
    in map button_id (actions s1) = [js ''2'', js ''3'']
       \<and> map button_id (actions s2) = [js ''2'', js ''3'', js ''3'']
       \<and> map button_id (actions s3) = [js ''2''])"
  by (simp add: handleAddAction_def handleDeleteAction_def initial_def defaultActions_def
      js_def String_number.simps [of "Suc (Suc (Suc 0))"] digit_def)

section \<open>Updating an action button\<close>

text \<open>
  Claim C10. For an update of name, action text or emoji (an update with no id), the
  update handler changes nothing but the list of actions, keeps its length and the order
  of the ids, leaves every action with another id as it is, and gives a matching action
  the fields present in the update, its id and its other fields unchanged.
\<close>

theorem handleUpdateAction_frame:
  assumes "upd_id u = None"
  shows "handleUpdateAction i u s = s\<lparr>actions := actions (handleUpdateAction i u s)\<rparr>
   \<and> length (actions (handleUpdateAction i u s)) = length (actions s)
   \<and> map button_id (actions (handleUpdateAction i u s)) = map button_id (actions s)
   \<and> (\<forall>k < length (actions s).
        (let a = actions s ! k; b = actions (handleUpdateAction i u s) ! k
         in if button_id a \<noteq> i then b = a
            else button_id b = button_id a
               \<and> name b = (case upd_name u of None \<Rightarrow> name a | Some v \<Rightarrow> v)
               \<and> action b = (case upd_action u of None \<Rightarrow> action a | Some v \<Rightarrow> v)
               \<and> emoji b = (case upd_emoji u of None \<Rightarrow> emoji a | Some v \<Rightarrow> v)))"
proof (intro conjI allI impI)
  show "handleUpdateAction i u s = s\<lparr>actions := actions (handleUpdateAction i u s)\<rparr>"
    by (simp add: handleUpdateAction_def)
  show "length (actions (handleUpdateAction i u s)) = length (actions s)"
    by (simp add: handleUpdateAction_def)
  show "map button_id (actions (handleUpdateAction i u s)) = map button_id (actions s)"
    using assms by (simp add: handleUpdateAction_def spread_def)
next
  fix k
  assume "k < length (actions s)"
  then show "let a = actions s ! k; b = actions (handleUpdateAction i u s) ! k
         in if button_id a \<noteq> i then b = a
            else button_id b = button_id a
               \<and> name b = (case upd_name u of None \<Rightarrow> name a | Some v \<Rightarrow> v)
               \<and> action b = (case upd_action u of None \<Rightarrow> action a | Some v \<Rightarrow> v)
               \<and> emoji b = (case upd_emoji u of None \<Rightarrow> emoji a | Some v \<Rightarrow> v)"
    using assms by (simp add: handleUpdateAction_def spread_def Let_def)
qed

theorem handleUpdateAction_frame_witness:
  "upd_id \<lparr>upd_id = None, upd_name = Some (js ''Grow''), upd_action = None, upd_emoji = None\<rparr> = None
   \<and> map name (actions (handleUpdateAction (js ''1'')
        \<lparr>upd_id = None, upd_name = Some (js ''Grow''), upd_action = None, upd_emoji = None\<rparr>
        (initial 0))) = [js ''Grow'', js ''Shorten'', js ''Critique'']
   \<and> map button_id (actions (handleUpdateAction (js ''1'')
        \<lparr>upd_id = None, upd_name = Some (js ''Grow''), upd_action = None, upd_emoji = None\<rparr>
        (initial 0))) = map button_id (actions (initial 0))
   \<and> length (actions (handleUpdateAction (js ''1'')
        \<lparr>upd_id = None, upd_name = Some (js ''Grow''), upd_action = None, upd_emoji = None\<rparr>
        (initial 0))) = 3"
proof -
  let ?u = "\<lparr>upd_id = None, upd_name = Some (js ''Grow''), upd_action = None, upd_emoji = None\<rparr>"
  have h: "upd_id ?u = None" by simp
  have n: "map name (actions (handleUpdateAction (js ''1'') ?u (initial 0)))
      = [js ''Grow'', js ''Shorten'', js ''Critique'']"
    by (simp add: handleUpdateAction_def spread_def initial_def defaultActions_def js_def)
  have l: "length (actions (initial 0)) = 3"
    by (simp add: initial_def defaultActions_def)
  from handleUpdateAction_frame [OF h, of "js ''1''" "initial 0"] h n l show ?thesis
    by simp
qed

section \<open>Reordering the action buttons\<close>

lemma findIndex_range:
  "- 1 \<le> findIndex p xs \<and> (xs \<noteq> [] \<longrightarrow> findIndex p xs < int (length xs))"
  by (induction xs) (auto simp: Let_def)

lemma arrayMove_mset:
  assumes "xs \<noteq> []" and "- 1 \<le> i" and "i < int (length xs)"
  shows "\<exists>ys. arrayMove xs i j = Some ys \<and> mset ys = mset xs"
proof -
  define k where "k = splice_start i (length xs)"
  have k: "k < length xs"
    using assms unfolding k_def splice_start_def by (auto simp: min_def max_def)
  define rest where "rest = take k xs @ drop (k + 1) xs"
  have tk: "take 1 (drop k xs) = [xs ! k]"
    using k by (metis Cons_nth_drop_Suc One_nat_def take0 take_Suc_Cons)
  have "mset xs = mset (take k xs) + mset (drop k xs)"
    by (metis append_take_drop_id mset_append)
  also have "drop k xs = xs ! k # drop (k + 1) xs"
    using k by (simp add: Cons_nth_drop_Suc)
  finally have m: "mset xs = add_mset (xs ! k) (mset rest)"
    by (simp add: rest_def)
  have ins: "mset (take n rest @ [xs ! k] @ drop n rest) = add_mset (xs ! k) (mset rest)" for n
  proof -
    have "mset (take n rest @ [xs ! k] @ drop n rest)
        = add_mset (xs ! k) (mset (take n rest) + mset (drop n rest))"
      by simp
    also have "mset (take n rest) + mset (drop n rest) = mset rest"
      by (metis append_take_drop_id mset_append)
    finally show ?thesis .
  qed
  show ?thesis
    unfolding arrayMove_def Let_def k_def [symmetric]
    using tk m ins by (simp add: rest_def)
qed

text \<open>
  Claim C2. For a list that has an item to drag, the list after the reorder handler is a
  permutation of the list before it, and nothing else of the state changes; when the
  dragged item is dropped on itself the state is left as it is.
\<close>

theorem handleDragEnd_permutation:
  "(actions s \<noteq> [] \<longrightarrow>
      (\<exists>moved. handleDragEnd event s = Some (s\<lparr>actions := moved\<rparr>)
         \<and> mset moved = mset (actions s)))
   \<and> (over_id event = Some (active_id event) \<longrightarrow> handleDragEnd event s = Some s)"
proof (intro conjI impI)
  assume ne: "actions s \<noteq> []"
  let ?i = "findIndex (\<lambda>item. button_id item = active_id event) (actions s)"
  let ?j = "findIndex (\<lambda>item. button_id item = String_over (over_id event)) (actions s)"
  from findIndex_range [of "\<lambda>item. button_id item = active_id event" "actions s"] ne
  have r: "- 1 \<le> ?i" "?i < int (length (actions s))" by auto
  from arrayMove_mset [OF ne r, of ?j]
  obtain ys where ys: "arrayMove (actions s) ?i ?j = Some ys" "mset ys = mset (actions s)"
    by blast
  show "\<exists>moved. handleDragEnd event s = Some (s\<lparr>actions := moved\<rparr>)
      \<and> mset moved = mset (actions s)"
  proof (cases "Some (active_id event) = over_id event")
    case True
    then have "handleDragEnd event s = Some (s\<lparr>actions := actions s\<rparr>)"
      by (simp add: handleDragEnd_def)
    then show ?thesis by blast
  next
    case False
    then have "handleDragEnd event s = Some (s\<lparr>actions := ys\<rparr>)"
      using ys by (simp add: handleDragEnd_def Let_def)
    with ys show ?thesis by blast
  qed
next
  assume "over_id event = Some (active_id event)"
  then show "handleDragEnd event s = Some s" by (simp add: handleDragEnd_def)
qed

theorem handleDragEnd_permutation_witness:
  "actions (initial 0) \<noteq> []
   \<and> (\<exists>moved. handleDragEnd \<lparr>active_id = js ''1'', over_id = Some (js ''3'')\<rparr> (initial 0)
          = Some ((initial 0)\<lparr>actions := moved\<rparr>)
        \<and> mset moved = mset (actions (initial 0)))
   \<and> map_option (\<lambda>s. map button_id (actions s))
        (handleDragEnd \<lparr>active_id = js ''1'', over_id = Some (js ''3'')\<rparr> (initial 0))
      = Some [js ''2'', js ''3'', js ''1'']
   \<and> over_id \<lparr>active_id = js ''1'', over_id = Some (js ''1'')\<rparr>
      = Some (active_id \<lparr>active_id = js ''1'', over_id = Some (js ''1'')\<rparr>)
   \<and> handleDragEnd \<lparr>active_id = js ''1'', over_id = Some (js ''1'')\<rparr> (initial 0)
      = Some (initial 0)"
proof -
  have h1: "actions (initial 0) \<noteq> []"
    by (simp add: initial_def defaultActions_def)
  have h2: "over_id \<lparr>active_id = js ''1'', over_id = Some (js ''1'')\<rparr>
      = Some (active_id \<lparr>active_id = js ''1'', over_id = Some (js ''1'')\<rparr>)"
    by simp
  have v: "map_option (\<lambda>s. map button_id (actions s))
        (handleDragEnd \<lparr>active_id = js ''1'', over_id = Some (js ''3'')\<rparr> (initial 0))
      = Some [js ''2'', js ''3'', js ''1'']"
    by (simp add: handleDragEnd_def arrayMove_def splice_start_def String_over_def initial_def
        defaultActions_def js_def Let_def)
  from handleDragEnd_permutation [of "initial 0" "\<lparr>active_id = js ''1'', over_id = Some (js ''3'')\<rparr>"] h1
  have c1: "\<exists>moved. handleDragEnd \<lparr>active_id = js ''1'', over_id = Some (js ''3'')\<rparr> (initial 0)
          = Some ((initial 0)\<lparr>actions := moved\<rparr>)
        \<and> mset moved = mset (actions (initial 0))"
    by blast
  from handleDragEnd_permutation [of "initial 0" "\<lparr>active_id = js ''1'', over_id = Some (js ''1'')\<rparr>"] h2
  have c2: "handleDragEnd \<lparr>active_id = js ''1'', over_id = Some (js ''1'')\<rparr> (initial 0)
      = Some (initial 0)"
    by blast
  from h1 h2 v c1 c2 show ?thesis by blast
qed

section \<open>The connection dialog\<close>

text \<open>
  Claim C3. When the selected provider is OpenAI and the API key is blank, or the selected
  provider is Llama and the host or the port is blank, the connect handler sets the inline
  error of the dialog and returns: it issues no request and leaves the state of the
  component, the stored LLM configuration with it, as it is.
\<close>

theorem handleConnect_rejects:
  "(selectedLLM m = OpenAI \<and> blank (form_apiKey m))
     \<or> (selectedLLM m = Llama \<and> (blank (form_host m) \<or> blank (form_port m))) \<Longrightarrow>
   handleConnect m s =
     (m\<lparr>form_error := Some (if selectedLLM m = OpenAI then js ''API key is required''
                             else js ''Host and port are required'')\<rparr>, s, [])"
  by (auto simp: handleConnect_def trim_empty_iff Let_def)

theorem handleConnect_rejects_witness:
  "blank (js '' '') \<and> blank []
   \<and> handleConnect
        \<lparr>selectedLLM = OpenAI, form_apiKey = js '' '', form_host = js ''http://localhost'',
          form_port = js ''8080'', form_error = None\<rparr> connected
      = (\<lparr>selectedLLM = OpenAI, form_apiKey = js '' '', form_host = js ''http://localhost'',
           form_port = js ''8080'', form_error = Some (js ''API key is required'')\<rparr>,
         connected, [])
   \<and> handleConnect
        \<lparr>selectedLLM = Llama, form_apiKey = [], form_host = js ''http://localhost'',
          form_port = [], form_error = None\<rparr> connected
      = (\<lparr>selectedLLM = Llama, form_apiKey = [], form_host = js ''http://localhost'',
           form_port = [], form_error = Some (js ''Host and port are required'')\<rparr>,
         connected, [])"
proof -
  let ?m1 = "\<lparr>selectedLLM = OpenAI, form_apiKey = js '' '', form_host = js ''http://localhost'',
          form_port = js ''8080'', form_error = None\<rparr>"
  let ?m2 = "\<lparr>selectedLLM = Llama, form_apiKey = [], form_host = js ''http://localhost'',
          form_port = [], form_error = None\<rparr>"
  have b1: "blank (js '' '')" by (simp add: blank_def isWhiteSpace_def js_def)
  have b2: "blank []" by (simp add: blank_def)
  have h1: "(selectedLLM ?m1 = OpenAI \<and> blank (form_apiKey ?m1))
     \<or> (selectedLLM ?m1 = Llama \<and> (blank (form_host ?m1) \<or> blank (form_port ?m1)))"
    using b1 by simp
  have h2: "(selectedLLM ?m2 = OpenAI \<and> blank (form_apiKey ?m2))
     \<or> (selectedLLM ?m2 = Llama \<and> (blank (form_host ?m2) \<or> blank (form_port ?m2)))"
    using b2 by simp
  from handleConnect_rejects [OF h1, of connected] handleConnect_rejects [OF h2, of connected] b1 b2
  show ?thesis by simp
qed

text \<open>
  Claim C7. A connection attempt issues one request. When it fails (the request or the
  reading of the body throws, or the success field of the body is false) the stored LLM
  configuration becomes the unconnected one, whatever it was before; when it succeeds it
  becomes the submitted configuration.
\<close>

theorem handleLLMConnect_outcome:
  "snd (handleLLMConnect config s) =
     [Fetch (if type config = Some OpenAI
             then Post_connect_llm (type config) (apiKey config) None None
             else Post_connect_llm (type config) None (host config) (port config))]
   \<and> llmConfig (fst (handleLLMConnect_settled config (Rejected e) s)) = unconnected
   \<and> llmConfig (fst (handleLLMConnect_settled config (Responded ok (Inl e)) s)) = unconnected
   \<and> llmConfig (fst (handleLLMConnect_settled config (Responded ok (Inr d)) s)) =
       (if success d then config else unconnected)
   \<and> type unconnected = None"
proof (intro conjI)
  show "snd (handleLLMConnect config s) =
     [Fetch (if type config = Some OpenAI
             then Post_connect_llm (type config) (apiKey config) None None
             else Post_connect_llm (type config) None (host config) (port config))]"
    by (simp add: handleLLMConnect_def)
  show "llmConfig (fst (handleLLMConnect_settled config (Rejected e) s)) = unconnected"
    by (simp add: handleLLMConnect_settled_def)
  show "llmConfig (fst (handleLLMConnect_settled config (Responded ok (Inl e)) s)) = unconnected"
    by (simp add: handleLLMConnect_settled_def)
  show "llmConfig (fst (handleLLMConnect_settled config (Responded ok (Inr d)) s)) =
       (if success d then config else unconnected)"
    by (simp add: handleLLMConnect_settled_def)
  show "type unconnected = None"
    by (simp add: unconnected_def)
qed

theorem handleLLMConnect_outcome_witness:
  "llmConfig (fst (handleLLMConnect_settled openai_config
      (Responded True (Inr \<lparr>success = False, data_message = None\<rparr>)) connected)) = unconnected
   \<and> llmConfig (fst (handleLLMConnect_settled openai_config
      (Responded True (Inr \<lparr>success = True, data_message = None\<rparr>)) (initial 0))) = openai_config
   \<and> llmConfig (fst (handleLLMConnect_settled openai_config (Rejected Non_error) connected))
      = unconnected"
  using handleLLMConnect_outcome [of openai_config connected Non_error True
      "\<lparr>success = False, data_message = None\<rparr>"]
    handleLLMConnect_outcome [of openai_config "initial 0" Non_error True
      "\<lparr>success = True, data_message = None\<rparr>"]
  by simp

section \<open>Clicking an action button\<close>

text \<open>
  Claim C4. When no LLM is connected or the editor content is blank, a click on an action
  button issues no request and changes no state; its only effect is one alert, asking to
  connect an LLM first when none is connected, and to enter some text otherwise.
\<close>

theorem handleActionClick_guard:
  "type (llmConfig s) = None \<or> blank (editorContent s) \<Longrightarrow>
   handleActionClick lc a s =
     (s, [Alert (if type (llmConfig s) = None then js ''Please connect to an LLM first''
                 else js ''Please enter some text in the editor first'')])"
  by (auto simp: handleActionClick_def trim_empty_iff)

theorem handleActionClick_guard_witness:
  "type (llmConfig (initial 0)) = None
   \<and> handleActionClick (\<lambda>x. x) (hd defaultActions) (initial 0)
      = (initial 0, [Alert (js ''Please connect to an LLM first'')])
   \<and> type (llmConfig connected) \<noteq> None \<and> blank (editorContent connected)
   \<and> handleActionClick (\<lambda>x. x) (hd defaultActions) connected
      = (connected, [Alert (js ''Please enter some text in the editor first'')])"
proof -
  have h1: "type (llmConfig (initial 0)) = None"
    by (simp add: initial_def unconnected_def)
  have h2: "type (llmConfig connected) \<noteq> None"
    by (simp add: connected_def openai_config_def)
  have h3: "blank (editorContent connected)"
    by (simp add: connected_def initial_def blank_def)
  from handleActionClick_guard [of "initial 0" "\<lambda>x. x" "hd defaultActions"]
    handleActionClick_guard [of connected "\<lambda>x. x" "hd defaultActions"] h1 h2 h3
  show ?thesis by simp
qed

lemma action_settled_cases:
  "handleActionClick_settled (Responded True (Inr d)) s =
       (s\<lparr>editorContent := data_text d, isProcessing := False\<rparr>, [])"
  "handleActionClick_settled (Responded False (Inr d)) s =
       (s\<lparr>isProcessing := False\<rparr>,
        [Console_error (js ''Action processing failed:'')
           (Error_obj (or_default (data_detail d) (js ''Failed to process action''))),
         Alert (or_default (data_detail d) (js ''Failed to process action''))])"
  "handleActionClick_settled (Responded ok (Inl e)) s =
       (s\<lparr>isProcessing := False\<rparr>,
        [Console_error (js ''Action processing failed:'') e,
         Alert (case e of Error_obj m \<Rightarrow> m
                | Non_error \<Rightarrow> js ''Failed to process action. Please try again.'')])"
  "handleActionClick_settled (Rejected e) s =
       (s\<lparr>isProcessing := False\<rparr>,
        [Console_error (js ''Action processing failed:'') e,
         Alert (case e of Error_obj m \<Rightarrow> m
                | Non_error \<Rightarrow> js ''Failed to process action. Please try again.'')])"
  by (simp_all add: handleActionClick_settled_def)

lemma fetch_result_cases:
  obtains (ok) d where "r = Responded True (Inr d)"
  | (not_ok) d where "r = Responded False (Inr d)"
  | (no_body) ok e where "r = Responded ok (Inl e)"
  | (rejected) e where "r = Rejected e"
proof (cases r)
  case (Rejected e)
  then show ?thesis by (rule rejected)
next
  case (Responded ok body)
  show ?thesis
  proof (cases body)
    case (Inl e)
    with Responded show ?thesis by (simp add: no_body)
  next
    case (Inr d)
    with Responded show ?thesis by (cases ok) (simp_all add: ok not_ok)
  qed
qed

text \<open>
  Claim C8. A click that passes the two checks sets the processing flag and issues one
  request. When the request succeeds, the editor content becomes the text of the body and
  nothing is alerted. When it fails, the editor content stays and one alert is shown: for
  a response that is not OK, the detail of the body when it has one that is not empty,
  and the text \<^verbatim>\<open>Failed to process action\<close> otherwise; for a thrown error, its
  message; for a thrown value that is not an error, the text
  \<^verbatim>\<open>Failed to process action. Please try again.\<close> In every case the actions and the
  profile fields stay as they are.
\<close>

theorem handleActionClick_outcome:
  "(type (llmConfig s) \<noteq> None \<and> \<not> blank (editorContent s) \<longrightarrow>
      handleActionClick lc a s =
        (s\<lparr>isProcessing := True\<rparr>,
         [Fetch (Post_submit_action (lc (name a)) (action a) (editorContent s)
            (aboutMe s) (preferredStyle s) (tone s))]))
   \<and> handleActionClick_settled (Responded True (Inr d)) s' =
       (s'\<lparr>editorContent := data_text d, isProcessing := False\<rparr>, [])
   \<and> (data_detail d = Some m \<and> m \<noteq> [] \<longrightarrow>
        handleActionClick_settled (Responded False (Inr d)) s' =
          (s'\<lparr>isProcessing := False\<rparr>, [Console_error (js ''Action processing failed:'') (Error_obj m), Alert m]))
   \<and> (data_detail d = None \<or> data_detail d = Some [] \<longrightarrow>
        handleActionClick_settled (Responded False (Inr d)) s' =
          (s'\<lparr>isProcessing := False\<rparr>,
           [Console_error (js ''Action processing failed:'') (Error_obj (js ''Failed to process action'')),
            Alert (js ''Failed to process action'')]))
   \<and> handleActionClick_settled (Responded ok (Inl (Error_obj msg))) s' =
       (s'\<lparr>isProcessing := False\<rparr>, [Console_error (js ''Action processing failed:'') (Error_obj msg), Alert msg])
   \<and> handleActionClick_settled (Responded ok (Inl Non_error)) s' =
       (s'\<lparr>isProcessing := False\<rparr>,
        [Console_error (js ''Action processing failed:'') Non_error, Alert (js ''Failed to process action. Please try again.'')])
   \<and> handleActionClick_settled (Rejected (Error_obj msg)) s' =
       (s'\<lparr>isProcessing := False\<rparr>, [Console_error (js ''Action processing failed:'') (Error_obj msg), Alert msg])
   \<and> handleActionClick_settled (Rejected Non_error) s' =
       (s'\<lparr>isProcessing := False\<rparr>,
        [Console_error (js ''Action processing failed:'') Non_error, Alert (js ''Failed to process action. Please try again.'')])
   \<and> actions (fst (handleActionClick_settled r s')) = actions s'
   \<and> aboutMe (fst (handleActionClick_settled r s')) = aboutMe s'
   \<and> preferredStyle (fst (handleActionClick_settled r s')) = preferredStyle s'
   \<and> tone (fst (handleActionClick_settled r s')) = tone s'"
proof (intro conjI impI)
  assume "type (llmConfig s) \<noteq> None \<and> \<not> blank (editorContent s)"
  then show "handleActionClick lc a s =
        (s\<lparr>isProcessing := True\<rparr>,
         [Fetch (Post_submit_action (lc (name a)) (action a) (editorContent s)
            (aboutMe s) (preferredStyle s) (tone s))])"
    by (simp add: handleActionClick_def trim_empty_iff)
next
  assume "data_detail d = Some m \<and> m \<noteq> []"
  then show "handleActionClick_settled (Responded False (Inr d)) s' =
          (s'\<lparr>isProcessing := False\<rparr>, [Console_error (js ''Action processing failed:'') (Error_obj m), Alert m])"
    by (simp add: action_settled_cases or_default_def)
next
  assume "data_detail d = None \<or> data_detail d = Some []"
  then show "handleActionClick_settled (Responded False (Inr d)) s' =
          (s'\<lparr>isProcessing := False\<rparr>,
           [Console_error (js ''Action processing failed:'') (Error_obj (js ''Failed to process action'')),
            Alert (js ''Failed to process action'')])"
    by (elim disjE) (simp_all add: action_settled_cases or_default_def)
next
  show "actions (fst (handleActionClick_settled r s')) = actions s'"
    by (cases r rule: fetch_result_cases) (simp_all add: action_settled_cases)
  show "aboutMe (fst (handleActionClick_settled r s')) = aboutMe s'"
    by (cases r rule: fetch_result_cases) (simp_all add: action_settled_cases)
  show "preferredStyle (fst (handleActionClick_settled r s')) = preferredStyle s'"
    by (cases r rule: fetch_result_cases) (simp_all add: action_settled_cases)
  show "tone (fst (handleActionClick_settled r s')) = tone s'"
    by (cases r rule: fetch_result_cases) (simp_all add: action_settled_cases)
qed (simp_all add: action_settled_cases)

theorem handleActionClick_outcome_witness:
  "type (llmConfig (connected\<lparr>editorContent := js ''Draft''\<rparr>)) \<noteq> None
   \<and> \<not> blank (editorContent (connected\<lparr>editorContent := js ''Draft''\<rparr>))
   \<and> handleActionClick (\<lambda>x. x) (hd defaultActions) (connected\<lparr>editorContent := js ''Draft''\<rparr>)
      = (connected\<lparr>editorContent := js ''Draft'', isProcessing := True\<rparr>,
         [Fetch (Post_submit_action (js ''Expand'')
            (js ''Expand the text while maintaining the context'') (js ''Draft'') []
            (js ''Professional'') (js ''Formal''))])
   \<and> handleActionClick_settled
        (Responded True (Inr \<lparr>data_text = js ''Longer draft'', data_detail = None\<rparr>))
        (connected\<lparr>editorContent := js ''Draft'', isProcessing := True\<rparr>)
      = (connected\<lparr>editorContent := js ''Longer draft'', isProcessing := False\<rparr>, [])
   \<and> data_detail \<lparr>data_text = [], data_detail = Some (js ''Rate limit exceeded'')\<rparr>
      = Some (js ''Rate limit exceeded'')
   \<and> js ''Rate limit exceeded'' \<noteq> []
   \<and> handleActionClick_settled
        (Responded False (Inr \<lparr>data_text = [], data_detail = Some (js ''Rate limit exceeded'')\<rparr>))
        (connected\<lparr>editorContent := js ''Draft'', isProcessing := True\<rparr>)
      = (connected\<lparr>editorContent := js ''Draft'', isProcessing := False\<rparr>,
         [Console_error (js ''Action processing failed:'') (Error_obj (js ''Rate limit exceeded'')),
          Alert (js ''Rate limit exceeded'')])
   \<and> data_detail \<lparr>data_text = [], data_detail = None\<rparr> = None
   \<and> handleActionClick_settled
        (Responded False (Inr \<lparr>data_text = [], data_detail = None\<rparr>))
        (connected\<lparr>editorContent := js ''Draft'', isProcessing := True\<rparr>)
      = (connected\<lparr>editorContent := js ''Draft'', isProcessing := False\<rparr>,
         [Console_error (js ''Action processing failed:'') (Error_obj (js ''Failed to process action'')),
          Alert (js ''Failed to process action'')])
   \<and> handleActionClick_settled (Rejected (Error_obj (js ''Failed to fetch'')))
        (connected\<lparr>editorContent := js ''Draft'', isProcessing := True\<rparr>)
      = (connected\<lparr>editorContent := js ''Draft'', isProcessing := False\<rparr>,
         [Console_error (js ''Action processing failed:'') (Error_obj (js ''Failed to fetch'')), Alert (js ''Failed to fetch'')])"
proof -
  let ?s = "connected\<lparr>editorContent := js ''Draft''\<rparr>"
  let ?p = "connected\<lparr>editorContent := js ''Draft'', isProcessing := True\<rparr>"
  let ?d1 = "\<lparr>data_text = [], data_detail = Some (js ''Rate limit exceeded'')\<rparr>"
  let ?d2 = "\<lparr>data_text = [], data_detail = None\<rparr>"
  have h1: "type (llmConfig ?s) \<noteq> None" by (simp add: connected_def openai_config_def)
  have h2: "\<not> blank (editorContent ?s)" by (simp add: blank_def isWhiteSpace_def js_def)
  have h3: "data_detail ?d1 = Some (js ''Rate limit exceeded'')" by simp
  have h4: "js ''Rate limit exceeded'' \<noteq> []" by (simp add: js_def)
  have h5: "data_detail ?d2 = None" by simp
  have a: "hd defaultActions = \<lparr>button_id = js ''1'', name = js ''Expand'',
       action = js ''Expand the text while maintaining the context'', emoji = [0x2728]\<rparr>"
    by (simp add: defaultActions_def)
  have p: "aboutMe ?s = [] \<and> preferredStyle ?s = js ''Professional'' \<and> tone ?s = js ''Formal''"
    by (simp add: connected_def initial_def)
  from handleActionClick_outcome [of ?s "\<lambda>x. x" "hd defaultActions"
      "\<lparr>data_text = js ''Longer draft'', data_detail = None\<rparr>" ?p] h1 h2
  have c1: "handleActionClick (\<lambda>x. x) (hd defaultActions) ?s
      = (?p, [Fetch (Post_submit_action (js ''Expand'')
            (js ''Expand the text while maintaining the context'') (js ''Draft'') []
            (js ''Professional'') (js ''Formal''))])"
    and c2: "handleActionClick_settled
        (Responded True (Inr \<lparr>data_text = js ''Longer draft'', data_detail = None\<rparr>)) ?p
      = (connected\<lparr>editorContent := js ''Longer draft'', isProcessing := False\<rparr>, [])"
    by (simp_all add: a p)
  from handleActionClick_outcome [of _ _ _ ?d1 ?p "js ''Rate limit exceeded''"] h3 h4
  have c3: "handleActionClick_settled (Responded False (Inr ?d1)) ?p
      = (connected\<lparr>editorContent := js ''Draft'', isProcessing := False\<rparr>,
         [Console_error (js ''Action processing failed:'') (Error_obj (js ''Rate limit exceeded'')),
          Alert (js ''Rate limit exceeded'')])"
    by simp
  from handleActionClick_outcome [of _ _ _ ?d2 ?p] h5
  have c4: "handleActionClick_settled (Responded False (Inr ?d2)) ?p
      = (connected\<lparr>editorContent := js ''Draft'', isProcessing := False\<rparr>,
         [Console_error (js ''Action processing failed:'') (Error_obj (js ''Failed to process action'')),
          Alert (js ''Failed to process action'')])"
    by simp
  from handleActionClick_outcome [of _ _ _ _ ?p _ _ "js ''Failed to fetch''"]
  have c5: "handleActionClick_settled (Rejected (Error_obj (js ''Failed to fetch''))) ?p
      = (connected\<lparr>editorContent := js ''Draft'', isProcessing := False\<rparr>,
         [Console_error (js ''Action processing failed:'') (Error_obj (js ''Failed to fetch'')), Alert (js ''Failed to fetch'')])"
    by simp
  from h1 h2 h3 h4 h5 c1 c2 c3 c4 c5 show ?thesis by blast
qed

section \<open>Sending a chat message\<close>

text \<open>
  Claim C5. When the chat input is blank, or no LLM is connected, or a chat request is in
  flight, the send handler issues no request and changes no state.
\<close>

theorem handleSendMessage_guard:
  "blank (inputMessage s) \<or> type (llmConfig s) = None \<or> isChatProcessing s \<Longrightarrow>
   handleSendMessage now s = (s, [])"
  by (auto simp: handleSendMessage_def trim_empty_iff)

theorem handleSendMessage_guard_witness:
  "blank (inputMessage (connected\<lparr>inputMessage := js ''  ''\<rparr>))
   \<and> type (llmConfig (connected\<lparr>inputMessage := js ''  ''\<rparr>)) \<noteq> None
   \<and> \<not> isChatProcessing (connected\<lparr>inputMessage := js ''  ''\<rparr>)
   \<and> handleSendMessage 7 (connected\<lparr>inputMessage := js ''  ''\<rparr>)
      = (connected\<lparr>inputMessage := js ''  ''\<rparr>, [])"
proof -
  let ?s = "connected\<lparr>inputMessage := js ''  ''\<rparr>"
  have h1: "blank (inputMessage ?s)" by (simp add: blank_def isWhiteSpace_def js_def)
  have h2: "type (llmConfig ?s) \<noteq> None" by (simp add: connected_def openai_config_def)
  have h3: "\<not> isChatProcessing ?s" by (simp add: connected_def initial_def)
  from handleSendMessage_guard [of ?s 7] h1 h2 h3 show ?thesis by simp
qed

lemma handleSendMessage_passes:
  "\<not> blank (inputMessage s) \<Longrightarrow> type (llmConfig s) \<noteq> None \<Longrightarrow> \<not> isChatProcessing s \<Longrightarrow>
   handleSendMessage now s =
     (s\<lparr>messages := messages s @ [\<lparr>msg_text = inputMessage s, isUser = True, timestamp = now\<rparr>],
        inputMessage := [], isChatProcessing := True\<rparr>,
      [Fetch (Post_chat (inputMessage s)
         (if editorContent s \<noteq> [] then Some (js ''Current editor content: '' @ editorContent s)
          else None))])"
  by (simp add: handleSendMessage_def trim_empty_iff Let_def)

lemma chat_settled_failure:
  "handleSendMessage_settled now (Rejected e) s =
     (s\<lparr>messages := messages s @ [\<lparr>msg_text = apology, isUser = False, timestamp = now\<rparr>],
        isChatProcessing := False\<rparr>, [Console_error (js ''Chat error:'') e])"
  "handleSendMessage_settled now (Responded False b) s =
     (s\<lparr>messages := messages s @ [\<lparr>msg_text = apology, isUser = False, timestamp = now\<rparr>],
        isChatProcessing := False\<rparr>,
      [Console_error (js ''Chat error:'') (Error_obj (js ''Failed to send message''))])"
  by (simp_all add: handleSendMessage_settled_def)

text \<open>
  Claim C6. When the request of a chat send fails (the request is rejected, or the
  response is not OK), the message list gains exactly one message, from the assistant,
  with the fixed text \<^verbatim>\<open>I'm sorry, I encountered an error. Please try again.\<close>, and the
  processing flag is cleared; after a send that passed the checks, that message stands
  right after the message of the user.
\<close>

theorem chat_failure_fallback:
  "fst (handleSendMessage_settled t (Rejected e) s) =
     s\<lparr>messages := messages s @
         [\<lparr>msg_text = js (''I'' @ [CHR 0x27] @ ''m sorry, I encountered an error. Please try again.''),
           isUser = False, timestamp = t\<rparr>],
       isChatProcessing := False\<rparr>
   \<and> fst (handleSendMessage_settled t (Responded False b) s) =
     s\<lparr>messages := messages s @
         [\<lparr>msg_text = js (''I'' @ [CHR 0x27] @ ''m sorry, I encountered an error. Please try again.''),
           isUser = False, timestamp = t\<rparr>],
       isChatProcessing := False\<rparr>
   \<and> (\<not> blank (inputMessage s) \<and> type (llmConfig s) \<noteq> None \<and> \<not> isChatProcessing s \<and>
        (r = Rejected e \<or> r = Responded False b) \<longrightarrow>
        (let s' = fst (handleSendMessage_settled t r (fst (handleSendMessage now s)))
         in messages s' = messages s @
              [\<lparr>msg_text = inputMessage s, isUser = True, timestamp = now\<rparr>,
               \<lparr>msg_text = js (''I'' @ [CHR 0x27] @ ''m sorry, I encountered an error. Please try again.''),
                 isUser = False, timestamp = t\<rparr>]
            \<and> \<not> isChatProcessing s'))"
proof (intro conjI impI)
  show "fst (handleSendMessage_settled t (Rejected e) s) =
     s\<lparr>messages := messages s @
         [\<lparr>msg_text = js (''I'' @ [CHR 0x27] @ ''m sorry, I encountered an error. Please try again.''),
           isUser = False, timestamp = t\<rparr>],
       isChatProcessing := False\<rparr>"
    by (simp add: chat_settled_failure apology_def)
  show "fst (handleSendMessage_settled t (Responded False b) s) =
     s\<lparr>messages := messages s @
         [\<lparr>msg_text = js (''I'' @ [CHR 0x27] @ ''m sorry, I encountered an error. Please try again.''),
           isUser = False, timestamp = t\<rparr>],
       isChatProcessing := False\<rparr>"
    by (simp add: chat_settled_failure apology_def)
next
  assume a: "\<not> blank (inputMessage s) \<and> type (llmConfig s) \<noteq> None \<and> \<not> isChatProcessing s \<and>
        (r = Rejected e \<or> r = Responded False b)"
  then have p: "fst (handleSendMessage now s) =
     s\<lparr>messages := messages s @ [\<lparr>msg_text = inputMessage s, isUser = True, timestamp = now\<rparr>],
        inputMessage := [], isChatProcessing := True\<rparr>"
    by (simp add: handleSendMessage_passes)
  from a have "r = Rejected e \<or> r = Responded False b" by simp
  then show "let s' = fst (handleSendMessage_settled t r (fst (handleSendMessage now s)))
         in messages s' = messages s @
              [\<lparr>msg_text = inputMessage s, isUser = True, timestamp = now\<rparr>,
               \<lparr>msg_text = js (''I'' @ [CHR 0x27] @ ''m sorry, I encountered an error. Please try again.''),
                 isUser = False, timestamp = t\<rparr>]
            \<and> \<not> isChatProcessing s'"
    unfolding p by (elim disjE) (simp_all add: chat_settled_failure apology_def)
qed

theorem chat_failure_fallback_witness:
  "\<not> blank (inputMessage (connected\<lparr>inputMessage := js ''hi''\<rparr>))
   \<and> type (llmConfig (connected\<lparr>inputMessage := js ''hi''\<rparr>)) \<noteq> None
   \<and> \<not> isChatProcessing (connected\<lparr>inputMessage := js ''hi''\<rparr>)
   \<and> (let s' = fst (handleSendMessage_settled 9 (Responded False (Inl Non_error))
                 (fst (handleSendMessage 7 (connected\<lparr>inputMessage := js ''hi''\<rparr>))))
      in messages s' = messages connected @
           [\<lparr>msg_text = [0x68, 0x69], isUser = True, timestamp = 7\<rparr>,
            \<lparr>msg_text =
              [0x49, 0x27, 0x6D, 0x20, 0x73, 0x6F, 0x72, 0x72, 0x79, 0x2C, 0x20, 0x49,
               0x20, 0x65, 0x6E, 0x63, 0x6F, 0x75, 0x6E, 0x74, 0x65, 0x72, 0x65, 0x64,
               0x20, 0x61, 0x6E, 0x20, 0x65, 0x72, 0x72, 0x6F, 0x72, 0x2E, 0x20, 0x50,
               0x6C, 0x65, 0x61, 0x73, 0x65, 0x20, 0x74, 0x72, 0x79, 0x20, 0x61, 0x67,
               0x61, 0x69, 0x6E, 0x2E],
              isUser = False, timestamp = 9\<rparr>]
         \<and> \<not> isChatProcessing s')
   \<and> map msg_text (messages (fst (handleSendMessage_settled 9 (Rejected Non_error) connected)))
      = map msg_text (messages connected) @
          [js (''I'' @ [CHR 0x27] @ ''m sorry, I encountered an error. Please try again.'')]"
proof -
  let ?s = "connected\<lparr>inputMessage := js ''hi''\<rparr>"
  have h1: "\<not> blank (inputMessage ?s)" by (simp add: blank_def isWhiteSpace_def js_def)
  have h2: "type (llmConfig ?s) \<noteq> None" by (simp add: connected_def openai_config_def)
  have h3: "\<not> isChatProcessing ?s" by (simp add: connected_def initial_def)
  have u: "js (''I'' @ [CHR 0x27] @ ''m sorry, I encountered an error. Please try again.'') =
              [0x49, 0x27, 0x6D, 0x20, 0x73, 0x6F, 0x72, 0x72, 0x79, 0x2C, 0x20, 0x49,
               0x20, 0x65, 0x6E, 0x63, 0x6F, 0x75, 0x6E, 0x74, 0x65, 0x72, 0x65, 0x64,
               0x20, 0x61, 0x6E, 0x20, 0x65, 0x72, 0x72, 0x6F, 0x72, 0x2E, 0x20, 0x50,
               0x6C, 0x65, 0x61, 0x73, 0x65, 0x20, 0x74, 0x72, 0x79, 0x20, 0x61, 0x67,
               0x61, 0x69, 0x6E, 0x2E]"
    by (simp add: js_def)
  have v: "js ''hi'' = [0x68, 0x69]" by (simp add: js_def)
  from chat_failure_fallback [of 9 Non_error ?s "Inl Non_error" "Responded False (Inl Non_error)" 7]
    h1 h2 h3
  have c1: "let s' = fst (handleSendMessage_settled 9 (Responded False (Inl Non_error))
                 (fst (handleSendMessage 7 ?s)))
      in messages s' = messages connected @
           [\<lparr>msg_text = js ''hi'', isUser = True, timestamp = 7\<rparr>,
            \<lparr>msg_text = js (''I'' @ [CHR 0x27] @ ''m sorry, I encountered an error. Please try again.''),
              isUser = False, timestamp = 9\<rparr>]
         \<and> \<not> isChatProcessing s'"
    by simp
  from chat_failure_fallback [of 9 Non_error connected]
  have c2: "map msg_text (messages (fst (handleSendMessage_settled 9 (Rejected Non_error) connected)))
      = map msg_text (messages connected) @
          [js (''I'' @ [CHR 0x27] @ ''m sorry, I encountered an error. Please try again.'')]"
    by simp
  from h1 h2 h3 c1 c2 show ?thesis unfolding u v by simp
qed

section \<open>One chat request at a time\<close>

lemma issued_no_chat:
  "p \<noteq> Chat_pending \<Longrightarrow> filter (\<lambda>q. q = Chat_pending) (issued p effects) = []"
  by (simp add: issued_def filter_empty_conv)

lemma remove_at_count:
  assumes "pending_at k ps = Some p"
  shows "length (filter P ps) = length (filter P (remove_at k ps)) + (if P p then 1 else 0)"
proof -
  from assms have k: "k < length ps" and p: "ps ! k = p"
    by (auto simp: pending_at_def split: if_splits)
  have "ps = take k ps @ ps ! k # drop (Suc k) ps"
    using k by (rule id_take_nth_drop)
  then have "filter P ps = filter P (take k ps) @ filter P [ps ! k] @ filter P (drop (Suc k) ps)"
    by (metis append_Cons append_Nil filter_append)
  then show ?thesis
    by (simp add: remove_at_def p)
qed

lemma handleDragEnd_chat:
  "handleDragEnd e s = Some s' \<Longrightarrow> isChatProcessing s' = isChatProcessing s"
  by (auto simp: handleDragEnd_def Let_def split: if_splits)

lemma handleActionClick_chat:
  "isChatProcessing (fst (handleActionClick lc a s)) = isChatProcessing s"
  by (simp add: handleActionClick_def)

lemma handleActionClick_settled_chat:
  "isChatProcessing (fst (handleActionClick_settled r s)) = isChatProcessing s"
  by (cases r rule: fetch_result_cases) (simp_all add: action_settled_cases)

lemma handleConnect_chat:
  "isChatProcessing (fst (snd (handleConnect m s))) = isChatProcessing s"
  by (simp add: handleConnect_def handleLLMConnect_def Let_def)

lemma handleLLMConnect_settled_chat:
  "isChatProcessing (fst (handleLLMConnect_settled c r s)) = isChatProcessing s"
  by (simp add: handleLLMConnect_settled_def Let_def split: fetch_result.splits sum.splits)

lemma handleSendMessage_settled_chat:
  "\<not> isChatProcessing (fst (handleSendMessage_settled t r s))"
  by (simp add: handleSendMessage_settled_def Let_def split: fetch_result.splits sum.splits)

lemma handleSendMessage_issue:
  "length (filter (\<lambda>q. q = Chat_pending) (issued Chat_pending (snd (handleSendMessage t s)))) =
     (if isChatProcessing (fst (handleSendMessage t s)) \<and> \<not> isChatProcessing s then 1 else 0)"
  by (simp add: handleSendMessage_def issued_def Let_def)

lemma handleSendMessage_keeps_flag:
  "isChatProcessing s \<Longrightarrow> isChatProcessing (fst (handleSendMessage t s))"
  by (simp add: handleSendMessage_def)

lemma step_serialized:
  assumes "serialized w" and "step lc e w = Some w'"
  shows "serialized w'"
proof (cases e)
  case Add_action
  with assms show ?thesis by (auto simp: serialized_def chat_inflight_def handleAddAction_def Let_def)
next
  case (Update_action i u)
  with assms show ?thesis by (auto simp: serialized_def chat_inflight_def handleUpdateAction_def)
next
  case (Delete_action i)
  with assms show ?thesis by (auto simp: serialized_def chat_inflight_def handleDeleteAction_def)
next
  case (Drag_end d)
  with assms obtain s' where "handleDragEnd d (ui w) = Some s'" and "w' = w\<lparr>ui := s'\<rparr>"
    by auto
  with assms(1) handleDragEnd_chat [of d "ui w" s'] show ?thesis
    by (simp add: serialized_def chat_inflight_def)
next
  case (Set_active_tab x)
  with assms show ?thesis by (auto simp: serialized_def chat_inflight_def)
next
  case Toggle_collapsed
  with assms show ?thesis by (auto simp: serialized_def chat_inflight_def)
next
  case (Set_about_me x)
  with assms show ?thesis by (auto simp: serialized_def chat_inflight_def)
next
  case (Set_preferred_style x)
  with assms show ?thesis by (auto simp: serialized_def chat_inflight_def)
next
  case (Set_tone x)
  with assms show ?thesis by (auto simp: serialized_def chat_inflight_def)
next
  case (Set_editor_content x)
  with assms show ?thesis by (auto simp: serialized_def chat_inflight_def)
next
  case (Set_input_message x)
  with assms show ?thesis by (auto simp: serialized_def chat_inflight_def)
next
  case (Send_message t)
  with assms have w': "w' = \<lparr>ui = fst (handleSendMessage t (ui w)),
      inflight = inflight w @ issued Chat_pending (snd (handleSendMessage t (ui w)))\<rparr>"
    by (simp add: case_prod_beta)
  show ?thesis
    using assms(1) handleSendMessage_issue [of t "ui w"] handleSendMessage_keeps_flag [of "ui w" t]
    unfolding w' serialized_def chat_inflight_def by (auto split: if_splits)
next
  case (Chat_settled k t r)
  with assms have p: "pending_at k (inflight w) = Some Chat_pending"
    and w': "w' = \<lparr>ui = fst (handleSendMessage_settled t r (ui w)),
                 inflight = remove_at k (inflight w)\<rparr>"
    by (auto split: if_splits)
  show ?thesis
    using assms(1) remove_at_count [OF p, of "\<lambda>q. q = Chat_pending"]
      handleSendMessage_settled_chat [of t r "ui w"]
    unfolding w' serialized_def chat_inflight_def by (auto split: if_splits)
next
  case (Action_click a)
  with assms have w': "w' = \<lparr>ui = fst (handleActionClick lc a (ui w)),
      inflight = inflight w @ issued Action_pending (snd (handleActionClick lc a (ui w)))\<rparr>"
    by (simp add: case_prod_beta)
  show ?thesis
    using assms(1) unfolding w' serialized_def chat_inflight_def
    by (simp add: issued_no_chat handleActionClick_chat)
next
  case (Action_settled k r)
  with assms have p: "pending_at k (inflight w) = Some Action_pending"
    and w': "w' = \<lparr>ui = fst (handleActionClick_settled r (ui w)),
                 inflight = remove_at k (inflight w)\<rparr>"
    by (auto split: if_splits)
  show ?thesis
    using assms(1) remove_at_count [OF p, of "\<lambda>q. q = Chat_pending"]
    unfolding w' serialized_def chat_inflight_def
    by (simp add: handleActionClick_settled_chat)
next
  case (Connect m)
  with assms obtain c where w': "w' = \<lparr>ui = fst (snd (handleConnect m (ui w))),
      inflight = inflight w @ issued (Connect_pending c) (snd (snd (handleConnect m (ui w))))\<rparr>"
    by (auto simp: case_prod_beta)
  show ?thesis
    using assms(1) unfolding w' serialized_def chat_inflight_def
    by (simp add: issued_no_chat handleConnect_chat)
next
  case (Connect_settled k r)
  with assms obtain c where p: "pending_at k (inflight w) = Some (Connect_pending c)"
    and w': "w' = \<lparr>ui = fst (handleLLMConnect_settled c r (ui w)),
                 inflight = remove_at k (inflight w)\<rparr>"
    by (auto split: option.splits pending.splits)
  show ?thesis
    using assms(1) remove_at_count [OF p, of "\<lambda>q. q = Chat_pending"]
    unfolding w' serialized_def chat_inflight_def
    by (simp add: handleLLMConnect_settled_chat)
qed

lemma run_serialized:
  "serialized w \<Longrightarrow> run lc es w = Some w' \<Longrightarrow> serialized w'"
proof (induction es arbitrary: w)
  case Nil
  then show ?case by simp
next
  case (Cons e es)
  from Cons.prems(2) obtain w1 where s: "step lc e w = Some w1" and r: "run lc es w1 = Some w'"
    by (auto split: option.splits)
  from Cons.prems(1) s have "serialized w1" by (rule step_serialized)
  then show ?case using r by (rule Cons.IH)
qed

lemma initial_serialized: "serialized (initial_world t)"
  by (simp add: serialized_def initial_world_def initial_def chat_inflight_def)

text \<open>
  Claim C9. A send that passes the checks appends the message of the user, clears the
  input and sets the processing flag in the step that issues the request. While the flag
  is set a further send returns without effect. So, in every state the component can
  reach, at most one chat request is in flight, and one is in flight exactly when the
  flag is set.
\<close>

theorem chat_serialized:
  "(\<not> blank (inputMessage s) \<and> type (llmConfig s) \<noteq> None \<and> \<not> isChatProcessing s \<longrightarrow>
      handleSendMessage now s =
        (s\<lparr>messages := messages s @
             [\<lparr>msg_text = inputMessage s, isUser = True, timestamp = now\<rparr>],
           inputMessage := [], isChatProcessing := True\<rparr>,
         [Fetch (Post_chat (inputMessage s)
            (if editorContent s \<noteq> [] then Some (js ''Current editor content: '' @ editorContent s)
             else None))]))
   \<and> (isChatProcessing s \<longrightarrow> handleSendMessage now s = (s, []))
   \<and> (run lc es (initial_world t0) = Some w \<longrightarrow>
        chat_inflight w \<le> 1 \<and> (chat_inflight w = 1 \<longleftrightarrow> isChatProcessing (ui w)))"
proof (intro conjI impI)
  assume "\<not> blank (inputMessage s) \<and> type (llmConfig s) \<noteq> None \<and> \<not> isChatProcessing s"
  then show "handleSendMessage now s =
        (s\<lparr>messages := messages s @
             [\<lparr>msg_text = inputMessage s, isUser = True, timestamp = now\<rparr>],
           inputMessage := [], isChatProcessing := True\<rparr>,
         [Fetch (Post_chat (inputMessage s)
            (if editorContent s \<noteq> [] then Some (js ''Current editor content: '' @ editorContent s)
             else None))])"
    by (simp add: handleSendMessage_passes)
next
  assume "isChatProcessing s"
  then show "handleSendMessage now s = (s, [])" by (simp add: handleSendMessage_def)
next
  assume "run lc es (initial_world t0) = Some w"
  with initial_serialized have "serialized w" by (rule run_serialized)
  then show "chat_inflight w \<le> 1" and "chat_inflight w = 1 \<longleftrightarrow> isChatProcessing (ui w)"
    by (simp_all add: serialized_def split: if_splits)
qed

theorem chat_serialized_witness:
  "\<not> blank (inputMessage (connected\<lparr>inputMessage := js ''hi''\<rparr>))
   \<and> type (llmConfig (connected\<lparr>inputMessage := js ''hi''\<rparr>)) \<noteq> None
   \<and> \<not> isChatProcessing (connected\<lparr>inputMessage := js ''hi''\<rparr>)
   \<and> handleSendMessage 7 (connected\<lparr>inputMessage := js ''hi''\<rparr>)
      = (connected\<lparr>messages := messages connected @
             [\<lparr>msg_text = js ''hi'', isUser = True, timestamp = 7\<rparr>],
           inputMessage := [], isChatProcessing := True\<rparr>,
         [Fetch (Post_chat (js ''hi'') None)])
   \<and> isChatProcessing (connected\<lparr>inputMessage := js ''more'', isChatProcessing := True\<rparr>)
   \<and> handleSendMessage 8 (connected\<lparr>inputMessage := js ''more'', isChatProcessing := True\<rparr>)
      = (connected\<lparr>inputMessage := js ''more'', isChatProcessing := True\<rparr>, [])
   \<and> (\<exists>w. run (\<lambda>x. x)
          [Connect \<lparr>selectedLLM = OpenAI, form_apiKey = js ''sk-test'',
             form_host = js ''http://localhost'', form_port = js ''8080'', form_error = None\<rparr>,
           Connect_settled 0 (Responded True (Inr \<lparr>success = True, data_message = None\<rparr>)),
           Set_input_message (js ''hi''),
           Send_message 7,
           Set_input_message (js ''more''),
           Send_message 8]
          (initial_world 0) = Some w
        \<and> chat_inflight w = 1 \<and> isChatProcessing (ui w)
        \<and> inputMessage (ui w) = js ''more'')"
proof -
  let ?s = "connected\<lparr>inputMessage := js ''hi''\<rparr>"
  let ?s2 = "connected\<lparr>inputMessage := js ''more'', isChatProcessing := True\<rparr>"
  let ?es = "[Connect \<lparr>selectedLLM = OpenAI, form_apiKey = js ''sk-test'',
             form_host = js ''http://localhost'', form_port = js ''8080'', form_error = None\<rparr>,
           Connect_settled 0 (Responded True (Inr \<lparr>success = True, data_message = None\<rparr>)),
           Set_input_message (js ''hi''),
           Send_message 7,
           Set_input_message (js ''more''),
           Send_message 8]"
  have h1: "\<not> blank (inputMessage ?s)" by (simp add: blank_def isWhiteSpace_def js_def)
  have h2: "type (llmConfig ?s) \<noteq> None" by (simp add: connected_def openai_config_def)
  have h3: "\<not> isChatProcessing ?s" by (simp add: connected_def initial_def)
  have h4: "isChatProcessing ?s2" by simp
  have e: "editorContent ?s = []" by (simp add: connected_def initial_def)
  have "\<exists>w. run (\<lambda>x. x) ?es (initial_world 0) = Some w \<and> inputMessage (ui w) = js ''more''"
    by (simp add: initial_world_def initial_def handleConnect_def handleLLMConnect_def
        handleLLMConnect_settled_def handleSendMessage_def issued_def pending_at_def
        remove_at_def trim_def isWhiteSpace_def js_def unconnected_def Let_def)
  then obtain w where r: "run (\<lambda>x. x) ?es (initial_world 0) = Some w"
    and i: "inputMessage (ui w) = js ''more''" by blast
  have f: "isChatProcessing (ui w)"
    using r
    by (simp add: initial_world_def initial_def handleConnect_def handleLLMConnect_def
        handleLLMConnect_settled_def handleSendMessage_def issued_def pending_at_def
        remove_at_def trim_def isWhiteSpace_def js_def unconnected_def Let_def) auto
  from chat_serialized [of ?s 7] h1 h2 h3
  have c1: "handleSendMessage 7 ?s
      = (connected\<lparr>messages := messages connected @
             [\<lparr>msg_text = js ''hi'', isUser = True, timestamp = 7\<rparr>],
           inputMessage := [], isChatProcessing := True\<rparr>,
         [Fetch (Post_chat (js ''hi'') None)])"
    by (simp add: e)
  from chat_serialized [of ?s2 8] h4
  have c2: "handleSendMessage 8 ?s2 = (?s2, [])" by blast
  from chat_serialized [of _ _ "\<lambda>x. x" ?es 0 w] r f
  have c3: "chat_inflight w = 1" by blast
  from h1 h2 h3 h4 c1 c2 c3 r f i show ?thesis by blast
qed

end
